theory Spec2Isabelle
  imports Main "HOL-Library.Word" "HOL-Library.Monad_Syntax"
begin

unbundle bit_operations_syntax

section \<open>Go values used by package sauce\<close>

type_synonym byte = "8 word"
type_synonym uint8 = "8 word"
type_synonym uint16 = "16 word"
type_synonym uint32 = "32 word"

text \<open>
  A Go \<^verbatim>\<open>string\<close> is an immutable sequence of bytes, and so is an Isabelle
  \<^typ>\<open>string\<close>: a \<^typ>\<open>char\<close> is one byte. The conversion \<^verbatim>\<open>string(b)\<close> of a byte
  slice copies the bytes one by one.
\<close>

definition code :: "char \<Rightarrow> nat" where
  "code c = of_char c"

definition byte_char :: "byte \<Rightarrow> char" where
  "byte_char w = char_of (unat w)"

definition string_of_bytes :: "byte list \<Rightarrow> string" where
  "string_of_bytes b = map byte_char b"

text \<open>
  Every error value of the package and of the library calls it makes is built by
  \<^verbatim>\<open>errors.New\<close>; it is identified here by its message.
\<close>

datatype error = ErrorsNew string

definition errShortRead :: error where
  "errShortRead = ErrorsNew ''Short read''"

text \<open>\<^verbatim>\<open>io.EOF\<close> and the errors of \<^verbatim>\<open>io.SectionReader.Seek\<close>.\<close>

definition EOF :: error where
  "EOF = ErrorsNew ''EOF''"

definition errWhence :: error where
  "errWhence = ErrorsNew ''Seek: invalid whence''"

definition errOffset :: error where
  "errOffset = ErrorsNew ''Seek: invalid offset''"

subsection \<open>Slices and indexing\<close>

text \<open>
  An index or slice expression out of range is a run-time panic in Go. A computation that
  can panic returns an option, and \<open>None\<close> is the panic. A byte slice is modelled by its
  elements, with capacity equal to length, so \<^verbatim>\<open>b[lo:hi]\<close> panics unless
  \<open>lo \<le> hi \<le> len(b)\<close>.
\<close>

definition slice :: "'a list \<Rightarrow> nat \<Rightarrow> nat \<Rightarrow> 'a list option" where
  "slice b lo hi = (if lo \<le> hi \<and> hi \<le> length b then Some (take (hi - lo) (drop lo b)) else None)"

definition slice_from :: "'a list \<Rightarrow> nat \<Rightarrow> 'a list option" where
  "slice_from b lo = (if lo \<le> length b then Some (drop lo b) else None)"

definition slice_to :: "'a list \<Rightarrow> nat \<Rightarrow> 'a list option" where
  "slice_to b hi = (if hi \<le> length b then Some (take hi b) else None)"

definition index :: "'a list \<Rightarrow> nat \<Rightarrow> 'a option" where
  "index b i = (if i < length b then Some (b ! i) else None)"

text \<open>\<^verbatim>\<open>bytes.Equal\<close> compares lengths and contents.\<close>

definition bytes_Equal :: "byte list \<Rightarrow> byte list \<Rightarrow> bool" where
  "bytes_Equal a b = (a = b)"

subsection \<open>\<^verbatim>\<open>encoding/binary\<close>: little-endian integers\<close>

text \<open>
  \<^verbatim>\<open>binary.LittleEndian.Uint16(b)\<close> reads \<^verbatim>\<open>b[1]\<close> first (the bounds check), then
  combines \<^verbatim>\<open>b[0] | b[1]<<8\<close>; \<^verbatim>\<open>Uint32\<close> does the same with four bytes.
\<close>

definition Uint16 :: "byte list \<Rightarrow> uint16 option" where
  "Uint16 b =
     (if length b \<le> 1 then None
      else Some (ucast (b ! 0) OR push_bit 8 (ucast (b ! 1))))"

definition Uint32 :: "byte list \<Rightarrow> uint32 option" where
  "Uint32 b =
     (if length b \<le> 3 then None
      else Some (ucast (b ! 0) OR push_bit 8 (ucast (b ! 1)) OR push_bit 16 (ucast (b ! 2))
                 OR push_bit 24 (ucast (b ! 3))))"

subsection \<open>\<^verbatim>\<open>strings.TrimSpace\<close>\<close>

text \<open>
  \<^verbatim>\<open>strings.TrimSpace\<close> removes leading and trailing white space as Unicode defines it
  (\<^verbatim>\<open>unicode.IsSpace\<close>), decoding the string as UTF-8. An invalid byte decodes to
  U+FFFD with width 1, which is not white space, and over-long encodings are invalid, so the
  rune at the front (at the back) of a string is white space exactly when the string begins
  (ends) with one of the encodings below: the six ASCII characters tab, line feed, vertical
  tab, form feed, carriage return and space, and the UTF-8 encodings of U+0085, U+00A0,
  U+1680, U+2000 to U+200A, U+2028, U+2029, U+202F, U+205F and U+3000. The ASCII fast path of
  the library computes the same result.
\<close>

definition space_encodings :: "nat list list" where
  "space_encodings =
     [[0x09], [0x0A], [0x0B], [0x0C], [0x0D], [0x20],
      [0xC2, 0x85], [0xC2, 0xA0],
      [0xE1, 0x9A, 0x80],
      [0xE2, 0x80, 0x80], [0xE2, 0x80, 0x81], [0xE2, 0x80, 0x82], [0xE2, 0x80, 0x83],
      [0xE2, 0x80, 0x84], [0xE2, 0x80, 0x85], [0xE2, 0x80, 0x86], [0xE2, 0x80, 0x87],
      [0xE2, 0x80, 0x88], [0xE2, 0x80, 0x89], [0xE2, 0x80, 0x8A],
      [0xE2, 0x80, 0xA8], [0xE2, 0x80, 0xA9], [0xE2, 0x80, 0xAF],
      [0xE2, 0x81, 0x9F],
      [0xE3, 0x80, 0x80]]"

text \<open>The width in bytes of the white-space rune a string begins with, 0 when there is none.\<close>

definition leading_space :: "string \<Rightarrow> nat" where
  "leading_space s =
     (if map code (take 1 s) \<in> set space_encodings then 1
      else if map code (take 2 s) \<in> set space_encodings then 2
      else if map code (take 3 s) \<in> set space_encodings then 3
      else 0)"

fun TrimLeftFunc :: "string \<Rightarrow> string" where
  "TrimLeftFunc [] = []"
| "TrimLeftFunc (c # s) =
     (if leading_space (c # s) = 0 then c # s
      else TrimLeftFunc (drop (leading_space (c # s) - 1) s))"

text \<open>The width in bytes of the white-space rune a string ends with, 0 when there is none.\<close>

definition trailing_space :: "string \<Rightarrow> nat" where
  "trailing_space s =
     (if map code (rev (take 1 (rev s))) \<in> set space_encodings then 1
      else if map code (rev (take 2 (rev s))) \<in> set space_encodings then 2
      else if map code (rev (take 3 (rev s))) \<in> set space_encodings then 3
      else 0)"

function TrimRightFunc :: "string \<Rightarrow> string" where
  "TrimRightFunc s =
     (if s = [] \<or> trailing_space s = 0 then s
      else TrimRightFunc (take (length s - trailing_space s) s))"
  by pat_completeness auto
termination
  by (relation "measure length") auto

definition TrimSpace :: "string \<Rightarrow> string" where
  "TrimSpace s = TrimRightFunc (TrimLeftFunc s)"

subsection \<open>\<^verbatim>\<open>strconv.Atoi\<close>\<close>

text \<open>
  \<^verbatim>\<open>strconv.Atoi\<close> returns a value and an error. The error is \<^verbatim>\<open>strconv.ErrSyntax\<close> or
  \<^verbatim>\<open>strconv.ErrRange\<close> (wrapped in a \<^verbatim>\<open>*NumError\<close>); on a syntax error the value is 0.
  The model is for a 64-bit \<^verbatim>\<open>int\<close>: strings of 1 to 18 bytes take the fast path, the
  others go through \<^verbatim>\<open>ParseInt(s, 10, 0)\<close>.
\<close>

datatype NumError = ErrSyntax | ErrRange

definition is_digit :: "char \<Rightarrow> bool" where
  "is_digit ch = (48 \<le> code ch \<and> code ch \<le> 57)"

definition digit_val :: "char \<Rightarrow> nat" where
  "digit_val ch = code ch - 48"

text \<open>The loop of the fast path: \<open>None\<close> is the return with a syntax error.\<close>

fun atoi_loop :: "int \<Rightarrow> string \<Rightarrow> int option" where
  "atoi_loop n [] = Some n"
| "atoi_loop n (ch # s) =
     (if is_digit ch then atoi_loop (n * 10 + int (digit_val ch)) s else None)"

text \<open>The loop of \<^verbatim>\<open>ParseUint(s, 10, 64)\<close>, with its overflow checks.\<close>

fun parseUint_loop :: "nat \<Rightarrow> string \<Rightarrow> nat \<times> NumError option" where
  "parseUint_loop n [] = (n, None)"
| "parseUint_loop n (c # s) =
     (if \<not> is_digit c then (0, Some ErrSyntax)
      else if n \<ge> (2 ^ 64 - 1) div 10 + 1 then (2 ^ 64 - 1, Some ErrRange)
      else if n * 10 + digit_val c > 2 ^ 64 - 1 then (2 ^ 64 - 1, Some ErrRange)
      else parseUint_loop (n * 10 + digit_val c) s)"

definition ParseUint :: "string \<Rightarrow> nat \<times> NumError option" where
  "ParseUint s = (if s = [] then (0, Some ErrSyntax) else parseUint_loop 0 s)"

definition ParseInt :: "string \<Rightarrow> int \<times> NumError option" where
  "ParseInt s =
     (if s = [] then (0, Some ErrSyntax)
      else
        let neg = (hd s = CHR ''-'');
            s1 = (if hd s = CHR ''+'' \<or> hd s = CHR ''-'' then tl s else s);
            (un, err) = ParseUint s1
        in if err = Some ErrSyntax then (0, err)
           else if \<not> neg \<and> un \<ge> 2 ^ 63 then (2 ^ 63 - 1, Some ErrRange)
           else if neg \<and> un > 2 ^ 63 then (- (2 ^ 63), Some ErrRange)
           else (if neg then - int un else int un, None))"

definition Atoi :: "string \<Rightarrow> int \<times> NumError option" where
  "Atoi s =
     (if 0 < length s \<and> length s < 19 then
        let s1 = (if hd s = CHR ''-'' \<or> hd s = CHR ''+'' then tl s else s)
        in if length s1 < 1 then (0, Some ErrSyntax)
           else (case atoi_loop 0 s1 of
                   None \<Rightarrow> (0, Some ErrSyntax)
                 | Some n \<Rightarrow> (if hd s = CHR ''-'' then - n else n, None))
      else ParseInt s)"

subsection \<open>\<^verbatim>\<open>time.Date\<close>\<close>

text \<open>
  The package builds every \<^verbatim>\<open>time.Time\<close> by
  \<^verbatim>\<open>time.Date(y, time.Month(m), d, 0, 0, 0, 0, time.UTC)\<close>, so a time is modelled by the
  instant it denotes: the seconds since 1970-01-01T00:00:00Z. \<^verbatim>\<open>time.Date\<close> rejects
  nothing: it normalises the month into 1..12, carrying into the year, and counts the day
  from the first of that month in the proleptic Gregorian calendar, whatever its value. The
  arguments \<open>parseDate\<close> can pass are small, so no machine integer overflows.
\<close>

type_synonym Time = int

definition norm :: "int \<Rightarrow> int \<Rightarrow> int \<Rightarrow> int \<times> int" where
  "norm hi lo base =
     (let (hi1, lo1) =
            (if lo < 0 then
               let n = (- lo - 1) div base + 1 in (hi - n, lo + n * base)
             else (hi, lo))
      in if lo1 \<ge> base then
           let n = lo1 div base in (hi1 + n, lo1 - n * base)
         else (hi1, lo1))"

definition isLeap :: "int \<Rightarrow> bool" where
  "isLeap year = (year mod 4 = 0 \<and> (year mod 100 \<noteq> 0 \<or> year mod 400 = 0))"

definition daysBefore :: "int list" where
  "daysBefore = [0, 31, 59, 90, 120, 151, 181, 212, 243, 273, 304, 334, 365]"

text \<open>The days from 1970-01-01 to the first of January of a year.\<close>

definition daysSinceEpoch :: "int \<Rightarrow> int" where
  "daysSinceEpoch year =
     365 * (year - 1970)
     + ((year - 1) div 4 - (year - 1) div 100 + (year - 1) div 400)
     - (1969 div 4 - 1969 div 100 + 1969 div 400)"

definition time_Date :: "int \<Rightarrow> int \<Rightarrow> int \<Rightarrow> Time" where
  "time_Date year month day =
     (let (year1, m) = norm year (month - 1) 12;
          month1 = m + 1;
          d = daysSinceEpoch year1 + daysBefore ! nat (month1 - 1)
              + (if isLeap year1 \<and> month1 \<ge> 3 then 1 else 0)
              + (day - 1)
      in d * 86400)"

text \<open>The zero \<^verbatim>\<open>time.Time\<close> is January 1, year 1, 00:00:00 UTC.\<close>

definition zero_Time :: Time where
  "zero_Time = time_Date 1 1 1"

section \<open>The SAUCE record\<close>

definition ID_var :: "byte list" where
  "ID_var = [0x53, 0x41, 0x55, 0x43, 0x45]"

definition Version_var :: "byte list" where
  "Version_var = [0, 0]"

record TFlags =
  NonBlink :: bool
  LetterSpacing :: uint8
  AspectRatio :: uint8

record SAUCE =
  ID :: "byte list"
  Version :: "byte list"
  Title :: string
  Author :: string
  Group :: string
  Date :: Time
  FileSize :: uint32
  DataType :: uint8
  FileType :: uint8
  TInfo :: "uint16 list"
  Comments :: uint8
  TFlags :: TFlags
  TInfos :: "byte list"

definition New :: SAUCE where
  "New =
     \<lparr>ID = ID_var, Version = Version_var, Title = [], Author = [], Group = [],
      Date = zero_Time, FileSize = 0, DataType = 0, FileType = 0,
      TInfo = [0, 0, 0, 0], Comments = 0,
      TFlags = \<lparr>NonBlink = False, LetterSpacing = 0, AspectRatio = 0\<rparr>,
      TInfos = []\<rparr>"

subsection \<open>\<open>parseDate\<close>\<close>

text \<open>
  The three slice expressions \<^verbatim>\<open>s[:4]\<close>, \<^verbatim>\<open>s[4:6]\<close>, \<^verbatim>\<open>s[6:8]\<close> panic on a string that
  is too short; the errors of \<^verbatim>\<open>Atoi\<close> are discarded and its values kept.
\<close>

definition parseDate :: "string \<Rightarrow> Time option" where
  "parseDate s =
     do {
       s1 \<leftarrow> slice_to s 4;
       let (y, _) = Atoi s1;
       s2 \<leftarrow> slice s 4 6;
       let (m, _) = Atoi s2;
       s3 \<leftarrow> slice s 6 8;
       let (d, _) = Atoi s3;
       Some (time_Date y m d)
     }"

subsection \<open>\<open>ParseBytes\<close>\<close>

text \<open>
  The offset \<^verbatim>\<open>o\<close> of the source is \<open>off\<close> here. The result is the pair
  \<^verbatim>\<open>(r *SAUCE, err error)\<close> that the function returns, \<open>None\<close> in a component for
  \<^verbatim>\<open>nil\<close>; the outer \<open>None\<close> is a panic. \<^verbatim>\<open>r.TInfos\<close> shares the buffer's
  memory in Go; the model keeps its bytes.
\<close>

definition ParseBytes :: "byte list \<Rightarrow> (SAUCE option \<times> error option) option" where
  "ParseBytes b =
     (if length b < 128 then Some (None, Some (ErrorsNew ''Short read''))
      else
        let off = length b - 128 in
        do {
          sig \<leftarrow> slice b (off + 0) (off + 5);
          if \<not> bytes_Equal sig ID_var then Some (None, Some (ErrorsNew ''No SAUCE record''))
          else do {
            let r = New;
            title \<leftarrow> slice b (off + 7) (off + 41);
            let r = r\<lparr>Title := TrimSpace (string_of_bytes title)\<rparr>;
            author \<leftarrow> slice b (off + 41) (off + 61);
            let r = r\<lparr>Author := TrimSpace (string_of_bytes author)\<rparr>;
            group \<leftarrow> slice b (off + 61) (off + 81);
            let r = r\<lparr>Group := TrimSpace (string_of_bytes group)\<rparr>;
            date \<leftarrow> slice b (off + 82) (off + 90);
            t \<leftarrow> parseDate (string_of_bytes date);
            let r = r\<lparr>Date := t\<rparr>;
            fsize \<leftarrow> Option.bind (slice b (off + 91) (off + 95)) Uint32;
            let r = r\<lparr>FileSize := fsize\<rparr>;
            dt \<leftarrow> index b (off + 94);
            let r = r\<lparr>DataType := dt\<rparr>;
            ft \<leftarrow> index b (off + 95);
            let r = r\<lparr>FileType := ft\<rparr>;
            t0 \<leftarrow> Option.bind (slice b (off + 96) (off + 98)) Uint16;
            let r = r\<lparr>TInfo := (TInfo r)[0 := t0]\<rparr>;
            t1 \<leftarrow> Option.bind (slice b (off + 98) (off + 100)) Uint16;
            let r = r\<lparr>TInfo := (TInfo r)[1 := t1]\<rparr>;
            t2 \<leftarrow> Option.bind (slice b (off + 100) (off + 102)) Uint16;
            let r = r\<lparr>TInfo := (TInfo r)[2 := t2]\<rparr>;
            t3 \<leftarrow> Option.bind (slice b (off + 102) (off + 104)) Uint16;
            let r = r\<lparr>TInfo := (TInfo r)[3 := t3]\<rparr>;
            c \<leftarrow> index b (off + 104);
            let r = r\<lparr>Comments := c\<rparr>;
            tinfos \<leftarrow> slice_from b (106 + off);
            let r = r\<lparr>TInfos := tinfos\<rparr>;
            tflags \<leftarrow> index b (off + 105);
            let r = r\<lparr>TFlags := (TFlags r)\<lparr>NonBlink := ((tflags AND 1) = 1)\<rparr>\<rparr>;
            let r = r\<lparr>TFlags := (TFlags r)\<lparr>LetterSpacing := (drop_bit 1 tflags AND 3)\<rparr>\<rparr>;
            let r = r\<lparr>TFlags := (TFlags r)\<lparr>AspectRatio := (drop_bit 3 tflags AND 3)\<rparr>\<rparr>;
            Some (Some r, None)
          }
        })"

subsection \<open>\<open>Parse\<close> and \<open>ParseReader\<close>\<close>

text \<open>
  An \<^verbatim>\<open>io.SectionReader\<close> has an underlying \<^verbatim>\<open>io.ReaderAt\<close>, the offsets \<^verbatim>\<open>base\<close> and
  \<^verbatim>\<open>limit\<close> of the section in it and the current offset \<^verbatim>\<open>off\<close>. The underlying reader
  is modelled by its contents, and its \<^verbatim>\<open>ReadAt\<close> is that of \<^verbatim>\<open>bytes.Reader\<close>: the bytes
  available from the offset, with \<^verbatim>\<open>io.EOF\<close> when they are fewer than asked for. The
  methods return their results together with the reader they leave behind. The offsets are
  \<^verbatim>\<open>int64\<close> values, integers from \<open>- 2 ^ 63\<close> to \<open>2 ^ 63 - 1\<close>, and every sum and
  difference of them wraps around as the machine's does.
\<close>

definition int64 :: "int \<Rightarrow> int" where
  "int64 x = (x + 2 ^ 63) mod 2 ^ 64 - 2 ^ 63"

record SectionReader =
  sr_r :: "byte list"
  sr_base :: int
  sr_off :: int
  sr_limit :: int

definition NewSectionReader :: "byte list \<Rightarrow> int \<Rightarrow> int \<Rightarrow> SectionReader" where
  "NewSectionReader rd offs n =
     (let remaining = (if offs \<le> int64 ((2 ^ 63 - 1) - n) then int64 (n + offs)
                       else 2 ^ 63 - 1)
      in \<lparr>sr_r = rd, sr_base = offs, sr_off = offs, sr_limit = remaining\<rparr>)"

definition Size :: "SectionReader \<Rightarrow> int" where
  "Size s = int64 (sr_limit s - sr_base s)"

definition Seek :: "SectionReader \<Rightarrow> int \<Rightarrow> int \<Rightarrow> (int \<times> error option) \<times> SectionReader" where
  "Seek s offset whence =
     (if whence \<noteq> 0 \<and> whence \<noteq> 1 \<and> whence \<noteq> 2 then ((0, Some errWhence), s)
      else
        let offset1 = int64 (offset + (if whence = 0 then sr_base s
                                       else if whence = 1 then sr_off s
                                       else sr_limit s))
        in if offset1 < sr_base s then ((0, Some errOffset), s)
           else ((int64 (offset1 - sr_base s), None), s\<lparr>sr_off := offset1\<rparr>))"

text \<open>\<open>ReadAt rd n offs\<close>: the bytes copied into a buffer of length \<open>n\<close>, and the error.\<close>

definition ReadAt :: "byte list \<Rightarrow> nat \<Rightarrow> int \<Rightarrow> byte list \<times> error option" where
  "ReadAt rd n offs =
     (if offs < 0 then ([], Some (ErrorsNew ''bytes.Reader.ReadAt: negative offset''))
      else if offs \<ge> int (length rd) then ([], Some EOF)
      else
        let d = take n (drop (nat offs) rd)
        in (d, if length d < n then Some EOF else None))"

text \<open>
  \<open>Read s p\<close> returns the count, the error and the buffer \<open>p\<close> after the call, with the
  reader advanced by the count. It shortens \<open>p\<close> to the bytes left in the section by the
  slice \<^verbatim>\<open>p[0:max]\<close>, which panics when the difference \<open>max\<close> has wrapped around to a
  negative value: \<open>None\<close>.
\<close>

definition Read :: "SectionReader \<Rightarrow> byte list \<Rightarrow> ((nat \<times> error option \<times> byte list) \<times> SectionReader) option" where
  "Read s p =
     (if sr_off s \<ge> sr_limit s then Some ((0, Some EOF, p), s)
      else
        let max = int64 (sr_limit s - sr_off s)
        in if int (length p) > max \<and> max < 0 then None
           else
             let n = (if int (length p) > max then nat max else length p);
                 (d, err) = ReadAt (sr_r s) n (sr_off s)
             in Some ((length d, err, d @ drop (length d) p),
                      s\<lparr>sr_off := int64 (sr_off s + int (length d))\<rparr>))"

text \<open>
  \<open>Parse\<close> returns what it returns in Go, and the reader as the call leaves it. A bare
  \<^verbatim>\<open>return\<close> returns the named results: \<^verbatim>\<open>r\<close> is still \<^verbatim>\<open>nil\<close> there.
\<close>

definition Parse :: "SectionReader \<Rightarrow> (SAUCE option \<times> error option) option \<times> SectionReader" where
  "Parse s =
     (let ((n, err), s1) = Seek s (- 128) 2
      in if err \<noteq> None then (Some (None, err), s1)
         else if n < 128 then (Some (None, Some errShortRead), s1)
         else
           let b = replicate 128 (0 :: byte)
           in (case Read s1 b of
                 None \<Rightarrow> (None, s1)
               | Some ((i, err, b1), s2) \<Rightarrow>
                   if err \<noteq> None then (Some (None, err), s2)
                   else if i \<noteq> 128 then (Some (None, Some errShortRead), s2)
                   else (ParseBytes b1, s2)))"

text \<open>
  \<open>ParseReader\<close> on a stream that delivers the bytes \<open>b\<close> without a read error:
  \<^verbatim>\<open>ioutil.ReadAll\<close> returns them all.
\<close>

definition ParseReader :: "byte list \<Rightarrow> (SAUCE option \<times> error option) option" where
  "ParseReader b =
     (if length b < 128 then Some (None, Some errShortRead) else ParseBytes b)"

subsection \<open>Classification\<close>

text \<open>
  The tables \<^verbatim>\<open>DataType\<close>, \<^verbatim>\<open>FileType\<close> and \<^verbatim>\<open>MimeType\<close> and the constants
  \<^verbatim>\<open>DataTypeBinaryText\<close>, \<^verbatim>\<open>DataTypeXBIN\<close> and \<^verbatim>\<open>DataTypeExecutable\<close> are declared in a
  file of the package that is not at hand, so the methods take them as a parameter. A Go map
  is a partial function; a key that is absent, or bound to a \<^verbatim>\<open>nil\<close> inner map, is \<open>None\<close>,
  and indexing a string-valued map at an absent key gives the empty string.
\<close>

record Tables =
  DataType_tab :: "uint8 \<rightharpoonup> string"
  FileType_tab :: "uint8 \<rightharpoonup> (uint8 \<rightharpoonup> string)"
  MimeType_tab :: "uint8 \<rightharpoonup> (uint8 \<rightharpoonup> string)"
  DataTypeBinaryText :: uint8
  DataTypeXBIN :: uint8
  DataTypeExecutable :: uint8

definition map_index :: "('k \<rightharpoonup> string) \<Rightarrow> 'k \<Rightarrow> string" where
  "map_index m k = (case m k of None \<Rightarrow> [] | Some v \<Rightarrow> v)"

definition DataTypeString :: "Tables \<Rightarrow> SAUCE \<Rightarrow> string" where
  "DataTypeString T r = map_index (DataType_tab T) (DataType r)"

definition FileTypeString :: "Tables \<Rightarrow> SAUCE \<Rightarrow> string" where
  "FileTypeString T r =
     (case FileType_tab T (DataType r) of
        None \<Rightarrow>
          (if DataType r = DataTypeBinaryText T then ''BinaryText''
           else if DataType r = DataTypeXBIN T then ''XBin''
           else if DataType r = DataTypeExecutable T then ''Executable''
           else [])
      | Some m \<Rightarrow> map_index m (FileType r))"

definition MimeType :: "Tables \<Rightarrow> SAUCE \<Rightarrow> string" where
  "MimeType T r =
     (let t = (case MimeType_tab T (DataType r) of
                 None \<Rightarrow>
                   (if DataType r = DataTypeBinaryText T then ''text/x-binary''
                    else if DataType r = DataTypeXBIN T then ''text/x-xbin''
                    else [])
               | Some m \<Rightarrow> map_index m (FileType r))
      in if t = [] then ''application/octet-stream'' else t)"

section \<open>The fixture of the specification\<close>

text \<open>
  The record of the specification's testable properties, built as a test would build it: a
  window of 128 zero bytes, the signature, and each field written at its offset in the order
  of the layout. The size field is four bytes from offset 91, so the data type code written
  at offset 94 afterwards replaces its last byte.
\<close>

definition bytes_of_string :: "string \<Rightarrow> byte list" where
  "bytes_of_string s = map of_char s"

definition pad :: "string \<Rightarrow> nat \<Rightarrow> string" where
  "pad s n = s @ replicate (n - length s) CHR '' ''"

definition PutUint16 :: "uint16 \<Rightarrow> byte list" where
  "PutUint16 v = [ucast v, ucast (drop_bit 8 v)]"

definition PutUint32 :: "uint32 \<Rightarrow> byte list" where
  "PutUint32 v = [ucast v, ucast (drop_bit 8 v), ucast (drop_bit 16 v), ucast (drop_bit 24 v)]"

definition copy_at :: "'a list \<Rightarrow> nat \<Rightarrow> 'a list \<Rightarrow> 'a list" where
  "copy_at w i src = take i w @ take (length w - i) src @ drop (i + length src) w"

definition fixture :: "byte list" where
  "fixture =
     (let w = replicate 128 0;
          w = copy_at w 0 (bytes_of_string ''SAUCE'');
          w = copy_at w 7 (bytes_of_string (pad ''Test Title'' 34));
          w = copy_at w 41 (bytes_of_string (pad ''Author'' 20));
          w = copy_at w 61 (bytes_of_string (pad ''Group'' 20));
          w = copy_at w 82 (bytes_of_string ''20230615'');
          w = copy_at w 91 (PutUint32 1024);
          w = w[94 := 1];
          w = w[95 := 0];
          w = copy_at w 96 (PutUint16 80);
          w = copy_at w 98 (PutUint16 25);
          w = copy_at w 100 (PutUint16 0);
          w = copy_at w 102 (PutUint16 0);
          w = w[104 := 0];
          w = w[105 := 5]
      in w)"

text \<open>
  A buffer matches the fixture when its trailing window carries the signature and every
  field of the fixture at its offset. The bytes that the fixture leaves open, at the offsets
  5, 6, 81, 90 and 106 to 127, are free, and so is what precedes the window. Of the size
  1024 the bytes at 91 to 93 are fixed; the byte at 94 is the data type code.
\<close>

definition matches_fixture :: "byte list \<Rightarrow> bool" where
  "matches_fixture b =
     (128 \<le> length b \<and>
      (let off = length b - 128 in
         take 5 (drop off b) = bytes_of_string ''SAUCE'' \<and>
         take 34 (drop (off + 7) b) = bytes_of_string (pad ''Test Title'' 34) \<and>
         take 20 (drop (off + 41) b) = bytes_of_string (pad ''Author'' 20) \<and>
         take 20 (drop (off + 61) b) = bytes_of_string (pad ''Group'' 20) \<and>
         take 8 (drop (off + 82) b) = bytes_of_string ''20230615'' \<and>
         take 3 (drop (off + 91) b) = take 3 (PutUint32 1024) \<and>
         b ! (off + 94) = 1 \<and>
         b ! (off + 95) = 0 \<and>
         take 8 (drop (off + 96) b) =
           PutUint16 80 @ PutUint16 25 @ PutUint16 0 @ PutUint16 0 \<and>
         b ! (off + 104) = 0 \<and>
         b ! (off + 105) = 5))"

text \<open>The record that the code decodes from the fixture.\<close>

definition fixture_record :: SAUCE where
  "fixture_record =
     \<lparr>ID = [0x53, 0x41, 0x55, 0x43, 0x45], Version = [0, 0], Title = ''Test Title'',
      Author = ''Author'', Group = ''Group'', Date = 1686787200,
      FileSize = 16778240, DataType = 1, FileType = 0,
      TInfo = [80, 25, 0, 0], Comments = 0,
      TFlags = \<lparr>NonBlink = True, LetterSpacing = 2, AspectRatio = 0\<rparr>,
      TInfos = replicate 22 0\<rparr>"

section \<open>What the specification says of a date substring\<close>










section \<open>Tables for the examples\<close>

text \<open>A few entries in the shape of the package's tables, with distinct type codes.\<close>

definition example_tables :: Tables where
  "example_tables =
     \<lparr>DataType_tab = [1 \<mapsto> ''Character'', 5 \<mapsto> ''BinaryText'', 6 \<mapsto> ''XBin'', 8 \<mapsto> ''Executable''],
      FileType_tab = [1 \<mapsto> [0 \<mapsto> ''ASCII'', 1 \<mapsto> ''ANSi'']],
      MimeType_tab = [1 \<mapsto> [0 \<mapsto> ''text/plain'', 1 \<mapsto> ''text/x-ansi'', 2 \<mapsto> '''']],
      DataTypeBinaryText = 5, DataTypeXBIN = 6, DataTypeExecutable = 8\<rparr>"

section \<open>Properties of the decoder\<close>

subsection \<open>Slices in range, and the record of a successful decoding\<close>

lemma slice_in_range:
  "lo \<le> hi \<Longrightarrow> hi \<le> length b \<Longrightarrow> slice b lo hi = Some (take (hi - lo) (drop lo b))"
  by (simp add: slice_def)

lemma index_in_range: "i < length b \<Longrightarrow> index b i = Some (b ! i)"
  by (simp add: index_def)

lemma Uint16_two:
  "length b = 2 \<Longrightarrow> Uint16 b = Some (ucast (b ! 0) OR push_bit 8 (ucast (b ! 1)))"
  by (simp add: Uint16_def)

lemma Uint32_four:
  "length b = 4 \<Longrightarrow>
   Uint32 b = Some (ucast (b ! 0) OR push_bit 8 (ucast (b ! 1)) OR push_bit 16 (ucast (b ! 2))
                    OR push_bit 24 (ucast (b ! 3)))"
  by (simp add: Uint32_def)

lemma parseDate_eight:
  "length s = 8 \<Longrightarrow>
   parseDate s =
     Some (time_Date (fst (Atoi (take 4 s))) (fst (Atoi (take 2 (drop 4 s))))
             (fst (Atoi (take 2 (drop 6 s)))))"
  by (simp add: parseDate_def slice_def slice_to_def split_beta)

lemma parseDate_panics: "parseDate s = None \<longleftrightarrow> length s < 8"
  by (auto simp add: parseDate_def slice_def slice_to_def split_beta split: if_splits)

lemma byte_char_inj: "byte_char v = byte_char w \<longleftrightarrow> v = w"
proof
  assume "byte_char v = byte_char w"
  then have "unat v mod 256 = unat w mod 256"
    by (simp add: byte_char_def char_of_eq_iff take_bit_eq_mod)
  moreover have "unat v < 256" "unat w < 256"
    using unsigned_less [of v, where ?'a = nat] unsigned_less [of w, where ?'a = nat] by simp_all
  ultimately show "v = w" by (simp add: word_unat_eq_iff)
qed simp

lemma string_of_bytes_inj: "string_of_bytes a = string_of_bytes b \<longleftrightarrow> a = b"
  unfolding string_of_bytes_def
  by (rule inj_map_eq_map) (simp add: inj_on_def byte_char_inj)

lemma string_of_ID: "string_of_bytes ID_var = ''SAUCE''"
  by (simp add: string_of_bytes_def ID_var_def byte_char_def char_of_eq_iff)

lemma is_SAUCE: "string_of_bytes a = ''SAUCE'' \<longleftrightarrow> a = ID_var"
  using string_of_bytes_inj [of a ID_var] by (simp add: string_of_ID)

lemma ParseBytes_short:
  "length b < 128 \<Longrightarrow> ParseBytes b = Some (None, Some (ErrorsNew ''Short read''))"
  by (simp add: ParseBytes_def)

lemma ParseBytes_no_signature:
  "128 \<le> length b \<Longrightarrow> take 5 (drop (length b - 128) b) \<noteq> ID_var \<Longrightarrow>
   ParseBytes b = Some (None, Some (ErrorsNew ''No SAUCE record''))"
  by (simp add: ParseBytes_def Let_def slice_in_range bytes_Equal_def)

lemma ParseBytes_success:
  assumes len: "128 \<le> length b"
    and sig: "take 5 (drop (length b - 128) b) = ID_var"
  shows "ParseBytes b =
     Some (Some
       \<lparr>ID = ID_var, Version = Version_var,
        Title = TrimSpace (string_of_bytes (take 34 (drop (length b - 128 + 7) b))),
        Author = TrimSpace (string_of_bytes (take 20 (drop (length b - 128 + 41) b))),
        Group = TrimSpace (string_of_bytes (take 20 (drop (length b - 128 + 61) b))),
        Date = time_Date
                 (fst (Atoi (string_of_bytes (take 4 (drop (length b - 128 + 82) b)))))
                 (fst (Atoi (string_of_bytes (take 2 (drop (length b - 128 + 86) b)))))
                 (fst (Atoi (string_of_bytes (take 2 (drop (length b - 128 + 88) b))))),
        FileSize = ucast (b ! (length b - 128 + 91))
                   OR push_bit 8 (ucast (b ! (length b - 128 + 92)))
                   OR push_bit 16 (ucast (b ! (length b - 128 + 93)))
                   OR push_bit 24 (ucast (b ! (length b - 128 + 94))),
        DataType = b ! (length b - 128 + 94),
        FileType = b ! (length b - 128 + 95),
        TInfo = [ucast (b ! (length b - 128 + 96)) OR push_bit 8 (ucast (b ! (length b - 128 + 97))),
                 ucast (b ! (length b - 128 + 98)) OR push_bit 8 (ucast (b ! (length b - 128 + 99))),
                 ucast (b ! (length b - 128 + 100)) OR push_bit 8 (ucast (b ! (length b - 128 + 101))),
                 ucast (b ! (length b - 128 + 102)) OR push_bit 8 (ucast (b ! (length b - 128 + 103)))],
        Comments = b ! (length b - 128 + 104),
        TFlags = \<lparr>NonBlink = (b ! (length b - 128 + 105) AND 1 = 1),
                  LetterSpacing = drop_bit 1 (b ! (length b - 128 + 105)) AND 3,
                  AspectRatio = drop_bit 3 (b ! (length b - 128 + 105)) AND 3\<rparr>,
        TInfos = drop (length b - 128 + 106) b\<rparr>, None)"
proof -
  define off where "off = length b - 128"
  have lb: "length b = off + 128" using len by (simp add: off_def)
  let ?s = "string_of_bytes (take 8 (drop (off + 82) b))"
  have s8: "length ?s = 8" by (simp add: string_of_bytes_def lb)
  have y: "take 4 ?s = string_of_bytes (take 4 (drop (off + 82) b))"
    by (simp add: string_of_bytes_def take_map)
  have m: "take 2 (drop 4 ?s) = string_of_bytes (take 2 (drop (off + 86) b))"
    by (simp add: string_of_bytes_def take_map drop_map drop_take add.commute)
  have dd: "take 2 (drop 6 ?s) = string_of_bytes (take 2 (drop (off + 88) b))"
    by (simp add: string_of_bytes_def take_map drop_map drop_take add.commute)
  have d: "parseDate ?s =
    Some (time_Date
                 (fst (Atoi (string_of_bytes (take 4 (drop (off + 82) b)))))
                 (fst (Atoi (string_of_bytes (take 2 (drop (off + 86) b)))))
                 (fst (Atoi (string_of_bytes (take 2 (drop (off + 88) b))))))"
    by (simp only: parseDate_eight [OF s8] y m dd)
  show ?thesis
    unfolding off_def [symmetric]
    using sig d
    apply (simp add: ParseBytes_def lb Let_def bytes_Equal_def slice_in_range index_in_range
        Uint16_two Uint32_four slice_from_def New_def off_def [symmetric])
    apply (auto simp add: add.commute)
    done
qed

text \<open>Only the trailing window of 128 bytes is decoded.\<close>

lemma ParseBytes_window:
  assumes "length w = 128"
  shows "ParseBytes (pre @ w) = ParseBytes w"
proof (cases "take 5 w = ID_var")
  case True
  show ?thesis
    using assms True
    by (simp add: ParseBytes_success [of w] ParseBytes_success [of "pre @ w"] nth_append)
next
  case False
  then show ?thesis
    using assms
    by (simp add: ParseBytes_no_signature [of w] ParseBytes_no_signature [of "pre @ w"])
qed

lemma ParseBytes_result:
  "ParseBytes b = Some (Some r, None) \<Longrightarrow>
   128 \<le> length b \<and> take 5 (drop (length b - 128) b) = ID_var"
  by (cases "length b < 128"; cases "take 5 (drop (length b - 128) b) = ID_var")
     (simp_all add: ParseBytes_short ParseBytes_no_signature)

subsection \<open>The fixture, evaluated\<close>

lemma fixture_bytes:
  "fixture =
     [0x53, 0x41, 0x55, 0x43, 0x45, 0x00, 0x00,
      0x54, 0x65, 0x73, 0x74, 0x20, 0x54, 0x69, 0x74, 0x6C, 0x65, 0x20, 0x20, 0x20, 0x20, 0x20,
      0x20, 0x20, 0x20, 0x20, 0x20, 0x20, 0x20, 0x20, 0x20, 0x20, 0x20, 0x20, 0x20, 0x20, 0x20,
      0x20, 0x20, 0x20, 0x20,
      0x41, 0x75, 0x74, 0x68, 0x6F, 0x72, 0x20, 0x20, 0x20, 0x20, 0x20, 0x20, 0x20, 0x20, 0x20,
      0x20, 0x20, 0x20, 0x20, 0x20,
      0x47, 0x72, 0x6F, 0x75, 0x70, 0x20, 0x20, 0x20, 0x20, 0x20, 0x20, 0x20, 0x20, 0x20, 0x20,
      0x20, 0x20, 0x20, 0x20, 0x20,
      0x00,
      0x32, 0x30, 0x32, 0x33, 0x30, 0x36, 0x31, 0x35,
      0x00,
      0x00, 0x04, 0x00, 0x01,
      0x00,
      0x50, 0x00, 0x19, 0x00, 0x00, 0x00, 0x00, 0x00,
      0x00,
      0x05,
      0x00, 0x00, 0x00, 0x00, 0x00, 0x00, 0x00, 0x00, 0x00, 0x00, 0x00,
      0x00, 0x00, 0x00, 0x00, 0x00, 0x00, 0x00, 0x00, 0x00, 0x00, 0x00]"
  by code_simp

lemma fixture_length: "length fixture = 128"
  by (simp add: fixture_bytes)

lemma fixture_signature: "take 5 (drop (length fixture - 128) fixture) = ID_var"
  by (simp add: fixture_bytes ID_var_def)

lemma ParseBytes_fixture: "ParseBytes fixture = Some (Some fixture_record, None)"
  unfolding fixture_record_def by code_simp

subsection \<open>Errors and totality\<close>

text \<open>
  C2: \<open>ParseBytes\<close> returns the short-read error exactly for the buffers of fewer than 128
  bytes, the missing-signature error exactly for the buffers of at least 128 bytes whose
  trailing window does not begin with the five bytes of "SAUCE", and a record with no error
  in every other case; whenever it returns an error the record is \<^verbatim>\<open>nil\<close>.
\<close>

theorem ParseBytes_error_cases:
  "(ParseBytes b = Some (None, Some (ErrorsNew ''Short read'')) \<longleftrightarrow> length b < 128) \<and>
   (ParseBytes b = Some (None, Some (ErrorsNew ''No SAUCE record'')) \<longleftrightarrow>
      128 \<le> length b \<and> string_of_bytes (take 5 (drop (length b - 128) b)) \<noteq> ''SAUCE'') \<and>
   ((\<exists>r. ParseBytes b = Some (Some r, None)) \<longleftrightarrow>
      128 \<le> length b \<and> string_of_bytes (take 5 (drop (length b - 128) b)) = ''SAUCE'') \<and>
   (\<forall>r e. ParseBytes b = Some (r, Some e) \<longrightarrow> r = None)"
proof -
  consider (short) "length b < 128"
    | (nosig) "128 \<le> length b" "take 5 (drop (length b - 128) b) \<noteq> ID_var"
    | (ok) "128 \<le> length b" "take 5 (drop (length b - 128) b) = ID_var"
    by linarith
  then show ?thesis
  proof cases
    case short
    then show ?thesis by (simp add: ParseBytes_short)
  next
    case nosig
    then show ?thesis by (simp add: ParseBytes_no_signature is_SAUCE)
  next
    case ok
    then show ?thesis by (simp add: ParseBytes_success is_SAUCE)
  qed
qed

theorem ParseBytes_error_cases_witness:
  "ParseBytes [] = Some (None, Some (ErrorsNew ''Short read'')) \<and>
   fst (the (ParseBytes [])) = None"
  using ParseBytes_error_cases [of "[]"] by simp

text \<open>
  C10: \<open>ParseBytes\<close> is total. On every buffer it returns a result and does not panic: a
  buffer shorter than 128 bytes gets the short-read error at once, and on a longer one every
  slice is in range, the last being the one from \<open>o + 106\<close>, and \<open>parseDate\<close> receives a
  string of exactly 8 bytes. \<open>parseDate\<close> itself returns exactly on the strings of at least
  8 bytes, where its three slices are in range.
\<close>

theorem ParseBytes_total:
  "(\<exists>res. ParseBytes b = Some res) \<and>
   (length b < 128 \<longrightarrow> ParseBytes b = Some (None, Some (ErrorsNew ''Short read''))) \<and>
   (128 \<le> length b \<longrightarrow>
      slice_from b (106 + (length b - 128)) = Some (drop (length b - 22) b) \<and>
      (\<exists>d. slice b (length b - 128 + 82) (length b - 128 + 90) = Some d \<and>
           length (string_of_bytes d) = 8 \<and>
           (\<exists>t. parseDate (string_of_bytes d) = Some t))) \<and>
   (\<forall>s. (\<exists>t. parseDate s = Some t) \<longleftrightarrow> 8 \<le> length s)"
proof -
  have total: "\<exists>res. ParseBytes b = Some res"
    by (cases "length b < 128"; cases "take 5 (drop (length b - 128) b) = ID_var")
       (simp_all add: ParseBytes_short ParseBytes_no_signature ParseBytes_success)
  have pd: "\<forall>s. (\<exists>t. parseDate s = Some t) \<longleftrightarrow> 8 \<le> length s"
    using parseDate_panics by (metis not_less option.exhaust option.distinct(1))
  have sl: "128 \<le> length b \<Longrightarrow>
      slice_from b (106 + (length b - 128)) = Some (drop (length b - 22) b) \<and>
      (\<exists>d. slice b (length b - 128 + 82) (length b - 128 + 90) = Some d \<and>
           length (string_of_bytes d) = 8 \<and>
           (\<exists>t. parseDate (string_of_bytes d) = Some t))"
    by (simp add: slice_from_def slice_in_range string_of_bytes_def parseDate_eight)
  show ?thesis using total pd sl by (simp add: ParseBytes_short)
qed

theorem ParseBytes_total_witness:
  "128 \<le> length fixture \<and> (\<exists>res. ParseBytes fixture = Some res) \<and>
   (\<exists>d. slice fixture 82 90 = Some d \<and> length (string_of_bytes d) = 8) \<and>
   length ([] :: byte list) < 128 \<and> (\<exists>res. ParseBytes [] = Some res) \<and>
   8 \<le> length ''20230615'' \<and> (\<exists>t. parseDate ''20230615'' = Some t)"
  using ParseBytes_total [of fixture] ParseBytes_total [of "[]"]
  by (auto simp add: fixture_length)

subsection \<open>Constant fields and the trailing bytes\<close>

text \<open>
  C7: on every buffer that \<open>ParseBytes\<close> decodes, the record's \<open>ID\<close> is the constant
  "SAUCE" and its \<open>Version\<close> the constant \<open>[0, 0]\<close>; the bytes at the window offsets 5 and
  6 are not read, so any two values there give the same record.
\<close>

theorem ParseBytes_stamps_constants:
  assumes "ParseBytes b = Some (Some r, None)"
  shows "string_of_bytes (ID r) = ''SAUCE'' \<and> ID r = ID_var \<and> Version r = [0, 0] \<and>
         ParseBytes (b[length b - 128 + 5 := x, length b - 128 + 6 := y]) = Some (Some r, None)"
proof -
  from assms have len: "128 \<le> length b" and sig: "take 5 (drop (length b - 128) b) = ID_var"
    using ParseBytes_result by blast+
  define off where "off = length b - 128"
  let ?b = "b[off + 5 := x, off + 6 := y]"
  have lb: "length b = off + 128" using len by (simp add: off_def)
  have lb': "length ?b - 128 = off" "128 \<le> length ?b" by (simp_all add: lb)
  have sig': "take 5 (drop (length ?b - 128) ?b) = ID_var"
    using sig unfolding lb' off_def [symmetric] by (simp add: drop_update_swap)
  have "ParseBytes ?b = ParseBytes b"
    unfolding ParseBytes_success [OF len sig] ParseBytes_success [OF lb'(2) sig']
    unfolding lb' off_def [symmetric]
    by simp
  moreover have "ID r = ID_var \<and> Version r = [0, 0]"
    using assms unfolding ParseBytes_success [OF len sig] by (auto simp add: Version_var_def)
  ultimately show ?thesis using assms by (simp add: string_of_ID off_def)
qed

theorem ParseBytes_stamps_constants_witness:
  "ParseBytes fixture = Some (Some fixture_record, None) \<and>
   string_of_bytes (ID fixture_record) = ''SAUCE'' \<and> Version fixture_record = [0, 0] \<and>
   ParseBytes (fixture[5 := 0x30, 6 := 0x31]) = Some (Some fixture_record, None)"
proof -
  have idx: "length fixture - 128 + 5 = 5" "length fixture - 128 + 6 = 6"
    by (simp_all add: fixture_length)
  show ?thesis
    using ParseBytes_stamps_constants [OF ParseBytes_fixture, of "0x30" "0x31", unfolded idx]
      ParseBytes_fixture
    by blast
qed

text \<open>
  C9: on every buffer that \<open>ParseBytes\<close> decodes, \<open>TInfos\<close> has exactly 22 bytes, the last
  22 of the buffer, however many bytes precede the window.
\<close>

theorem TInfos_length:
  assumes "ParseBytes b = Some (Some r, None)"
  shows "length (TInfos r) = 22 \<and> TInfos r = drop (length b - 22) b"
proof -
  from assms have len: "128 \<le> length b" and sig: "take 5 (drop (length b - 128) b) = ID_var"
    using ParseBytes_result by blast+
  have "length b - 128 + 106 = length b - 22" using len by simp
  then show ?thesis
    using assms len sig by (auto simp add: ParseBytes_success)
qed

theorem TInfos_length_witness:
  "ParseBytes fixture = Some (Some fixture_record, None) \<and>
   length (TInfos fixture_record) = 22 \<and> TInfos fixture_record = drop 106 fixture"
proof -
  have idx: "length fixture - 22 = 106" by (simp add: fixture_length)
  show ?thesis
    using TInfos_length [OF ParseBytes_fixture, unfolded idx] ParseBytes_fixture by blast
qed

subsection \<open>The flags byte\<close>

lemma and_one_bit: "((f :: byte) AND 1 = 1) = bit f 0"
proof -
  have "f AND 1 = of_bool (odd f)"
    by (simp only: and_one_eq mod_2_eq_odd)
  then show ?thesis by (simp add: bit_0)
qed

lemma and_three: "(w :: byte) AND 3 = take_bit 2 w"
proof -
  have "(3 :: byte) = mask 2" by (simp add: mask_eq_exp_minus_1)
  then show ?thesis by (simp only: take_bit_eq_mask)
qed

lemma unat_shift_mask: "unat (drop_bit k (f :: byte) AND 3) = unat f div 2 ^ k mod 4"
proof -
  have "unat (take_bit 2 (drop_bit k f)) = take_bit 2 (drop_bit k (unat f))"
    by (simp only: unsigned_take_bit_eq unat_drop_bit_eq)
  also have "\<dots> = unat f div 2 ^ k mod 4"
    by (simp add: take_bit_eq_mod drop_bit_eq_div)
  finally show ?thesis by (simp only: and_three)
qed

lemma low5:
  assumes "(g :: byte) AND 0x1F = f AND 0x1F"
  shows "(g AND 1 = 1) = (f AND 1 = 1)" "drop_bit 1 g AND 3 = drop_bit 1 f AND 3"
    "drop_bit 3 g AND 3 = drop_bit 3 f AND 3"
proof -
  have m: "(0x1F :: byte) = mask 5" by (simp add: mask_eq_exp_minus_1)
  have t: "take_bit 5 g = take_bit 5 f" using assms by (simp add: m take_bit_eq_mask)
  have b: "\<And>n. n < 5 \<Longrightarrow> bit g n = bit f n"
    using t by (metis bit_take_bit_iff)
  show "(g AND 1 = 1) = (f AND 1 = 1)" using b [of 0] by (simp add: and_one_bit)
  have m3: "(3 :: byte) = mask 2" by (simp add: mask_eq_exp_minus_1)
  show "drop_bit 1 g AND 3 = drop_bit 1 f AND 3"
    unfolding m3 by (rule bit_word_eqI) (auto simp add: bit_simps b)
  show "drop_bit 3 g AND 3 = drop_bit 3 f AND 3"
    unfolding m3 by (rule bit_word_eqI) (auto simp add: bit_simps b)
qed

lemma ParseBytes_TFlags:
  assumes len: "128 \<le> length b"
    and sig: "take 5 (drop (length b - 128) b) = ID_var"
  shows "\<exists>r. ParseBytes (b[length b - 128 + 105 := f]) = Some (Some r, None) \<and>
             TFlags r = \<lparr>NonBlink = (f AND 1 = 1), LetterSpacing = drop_bit 1 f AND 3,
                         AspectRatio = drop_bit 3 f AND 3\<rparr>"
proof -
  define off where "off = length b - 128"
  let ?b = "b[off + 105 := f]"
  have lb: "length b = off + 128" using len by (simp add: off_def)
  have lb': "length ?b - 128 = off" "128 \<le> length ?b" by (simp_all add: lb)
  have sig': "take 5 (drop (length ?b - 128) ?b) = ID_var"
    using sig unfolding lb' off_def [symmetric] by (simp add: drop_update_swap)
  have "?b ! (off + 105) = f" by (simp add: lb)
  then show ?thesis
    unfolding off_def [symmetric] ParseBytes_success [OF lb'(2) sig'] lb'
    by simp
qed

text \<open>
  C3: with any byte \<open>f\<close> at the window offset 105 of a buffer that carries the signature,
  \<open>ParseBytes\<close> succeeds, \<open>NonBlink\<close> is bit 0 of \<open>f\<close>, \<open>LetterSpacing\<close> is
  \<open>(f >> 1) & 3\<close> and \<open>AspectRatio\<close> is \<open>(f >> 3) & 3\<close>, both between 0 and 3, and a
  byte that agrees with \<open>f\<close> on the bits 0 to 4 gives the same flags.
\<close>

theorem TFlags_decoding:
  assumes len: "128 \<le> length b"
    and sig: "string_of_bytes (take 5 (drop (length b - 128) b)) = ''SAUCE''"
  shows "\<exists>r. ParseBytes (b[length b - 128 + 105 := f]) = Some (Some r, None) \<and>
           NonBlink (TFlags r) = (f AND 1 = 1) \<and>
           LetterSpacing (TFlags r) = drop_bit 1 f AND 3 \<and>
           AspectRatio (TFlags r) = drop_bit 3 f AND 3 \<and>
           NonBlink (TFlags r) = bit f 0 \<and>
           unat (LetterSpacing (TFlags r)) = unat f div 2 mod 4 \<and>
           unat (AspectRatio (TFlags r)) = unat f div 8 mod 4 \<and>
           unat (LetterSpacing (TFlags r)) \<le> 3 \<and>
           unat (AspectRatio (TFlags r)) \<le> 3 \<and>
           (\<forall>g. g AND 0x1F = f AND 0x1F \<longrightarrow>
                (\<exists>r'. ParseBytes (b[length b - 128 + 105 := g]) = Some (Some r', None) \<and>
                      TFlags r' = TFlags r))"
proof -
  have sig': "take 5 (drop (length b - 128) b) = ID_var" using sig by (simp add: is_SAUCE)
  obtain r where r: "ParseBytes (b[length b - 128 + 105 := f]) = Some (Some r, None)"
    and fl: "TFlags r = \<lparr>NonBlink = (f AND 1 = 1), LetterSpacing = drop_bit 1 f AND 3,
                         AspectRatio = drop_bit 3 f AND 3\<rparr>"
    using ParseBytes_TFlags [OF len sig'] by blast
  have ls: "unat (drop_bit 1 f AND 3) = unat f div 2 mod 4"
    using unat_shift_mask [of 1 f] by simp
  have ar: "unat (drop_bit 3 f AND 3) = unat f div 8 mod 4"
    using unat_shift_mask [of 3 f] by simp
  have rest: "\<exists>r'. ParseBytes (b[length b - 128 + 105 := g]) = Some (Some r', None) \<and>
                      TFlags r' = TFlags r" if "g AND 0x1F = f AND 0x1F" for g
    using ParseBytes_TFlags [OF len sig', of g] low5 [OF that] fl by auto
  have "NonBlink (TFlags r) = (f AND 1 = 1)" "LetterSpacing (TFlags r) = drop_bit 1 f AND 3"
    "AspectRatio (TFlags r) = drop_bit 3 f AND 3" "NonBlink (TFlags r) = bit f 0"
    "unat (LetterSpacing (TFlags r)) = unat f div 2 mod 4"
    "unat (AspectRatio (TFlags r)) = unat f div 8 mod 4"
    "unat (LetterSpacing (TFlags r)) \<le> 3" "unat (AspectRatio (TFlags r)) \<le> 3"
    using ls ar by (simp_all add: fl and_one_bit)
  with r rest show ?thesis by blast
qed

theorem TFlags_decoding_witness:
  "128 \<le> length fixture \<and>
   string_of_bytes (take 5 (drop (length fixture - 128) fixture)) = ''SAUCE'' \<and>
   (\<exists>r. ParseBytes (fixture[105 := 0xFF]) = Some (Some r, None) \<and>
        NonBlink (TFlags r) \<and> unat (LetterSpacing (TFlags r)) = 3 \<and>
        unat (AspectRatio (TFlags r)) = 3 \<and>
        (\<exists>r'. ParseBytes (fixture[105 := 0x1F]) = Some (Some r', None) \<and>
              TFlags r' = TFlags r))"
proof -
  have len: "128 \<le> length fixture" by (simp add: fixture_length)
  have sig: "string_of_bytes (take 5 (drop (length fixture - 128) fixture)) = ''SAUCE''"
    by (simp add: fixture_signature string_of_ID)
  have low: "(0x1F :: byte) AND 0x1F = 0xFF AND 0x1F" by simp
  show ?thesis
    using len sig TFlags_decoding [OF len sig, of "0xFF"] low
    by (auto simp add: fixture_length)
qed

subsection \<open>The date\<close>





















subsection \<open>Classification\<close>

text \<open>
  C5: \<open>MimeType\<close> never returns the empty string. Without an entry in the MIME table for
  the data type, the binary-text code gives "text/x-binary" and the XBIN code
  "text/x-xbin"; the executable code and every other code without an entry, and an entry
  whose inner lookup is empty, give "application/octet-stream". The three codes are
  distinct, as the cases of a Go switch must be.
\<close>

theorem MimeType_fallback:
  assumes "DataTypeBinaryText T \<noteq> DataTypeXBIN T"
    and "DataTypeExecutable T \<noteq> DataTypeBinaryText T"
    and "DataTypeExecutable T \<noteq> DataTypeXBIN T"
  shows "MimeType T r \<noteq> [] \<and>
    (MimeType_tab T (DataType r) = None \<and> DataType r = DataTypeBinaryText T \<longrightarrow>
       MimeType T r = ''text/x-binary'') \<and>
    (MimeType_tab T (DataType r) = None \<and> DataType r = DataTypeXBIN T \<longrightarrow>
       MimeType T r = ''text/x-xbin'') \<and>
    (MimeType_tab T (DataType r) = None \<and> DataType r = DataTypeExecutable T \<longrightarrow>
       MimeType T r = ''application/octet-stream'') \<and>
    (MimeType_tab T (DataType r) = None \<and> DataType r \<noteq> DataTypeBinaryText T \<and>
     DataType r \<noteq> DataTypeXBIN T \<longrightarrow>
       MimeType T r = ''application/octet-stream'') \<and>
    (\<forall>m. MimeType_tab T (DataType r) = Some m \<and> map_index m (FileType r) = [] \<longrightarrow>
       MimeType T r = ''application/octet-stream'') \<and>
    (\<forall>m. MimeType_tab T (DataType r) = Some m \<and> map_index m (FileType r) \<noteq> [] \<longrightarrow>
       MimeType T r = map_index m (FileType r))"
  using assms by (auto simp add: MimeType_def Let_def split: option.splits)

theorem MimeType_fallback_witness:
  "DataTypeBinaryText example_tables \<noteq> DataTypeXBIN example_tables \<and>
   DataTypeExecutable example_tables \<noteq> DataTypeBinaryText example_tables \<and>
   DataTypeExecutable example_tables \<noteq> DataTypeXBIN example_tables \<and>
   MimeType_tab example_tables 5 = None \<and>
   MimeType example_tables (New\<lparr>DataType := 5\<rparr>) = ''text/x-binary'' \<and>
   MimeType example_tables (New\<lparr>DataType := 6\<rparr>) = ''text/x-xbin'' \<and>
   MimeType example_tables (New\<lparr>DataType := 8\<rparr>) = ''application/octet-stream'' \<and>
   MimeType example_tables (New\<lparr>DataType := 9\<rparr>) = ''application/octet-stream'' \<and>
   MimeType example_tables (New\<lparr>DataType := 1, FileType := 2\<rparr>) = ''application/octet-stream'' \<and>
   MimeType example_tables (New\<lparr>DataType := 1, FileType := 7\<rparr>) = ''application/octet-stream'' \<and>
   MimeType example_tables (New\<lparr>DataType := 1, FileType := 1\<rparr>) = ''text/x-ansi''"
proof -
  have d: "DataTypeBinaryText example_tables \<noteq> DataTypeXBIN example_tables"
    "DataTypeExecutable example_tables \<noteq> DataTypeBinaryText example_tables"
    "DataTypeExecutable example_tables \<noteq> DataTypeXBIN example_tables"
    by (simp_all add: example_tables_def)
  note w = MimeType_fallback [OF d]
  show ?thesis
    using d w [of "New\<lparr>DataType := 5\<rparr>"] w [of "New\<lparr>DataType := 6\<rparr>"]
      w [of "New\<lparr>DataType := 8\<rparr>"] w [of "New\<lparr>DataType := 9\<rparr>"]
      w [of "New\<lparr>DataType := 1, FileType := 2\<rparr>"]
      w [of "New\<lparr>DataType := 1, FileType := 7\<rparr>"]
      w [of "New\<lparr>DataType := 1, FileType := 1\<rparr>"]
    by (simp add: example_tables_def map_index_def)
qed

text \<open>
  C6: \<open>FileTypeString\<close> returns the inner lookup for the file type when the table has an
  entry for the data type; without one it returns "BinaryText", "XBin" or "Executable" for
  the three distinguished codes and the empty string for every other code.
\<close>

theorem FileTypeString_lookup:
  assumes "DataTypeBinaryText T \<noteq> DataTypeXBIN T"
    and "DataTypeExecutable T \<noteq> DataTypeBinaryText T"
    and "DataTypeExecutable T \<noteq> DataTypeXBIN T"
  shows "(\<forall>m. FileType_tab T (DataType r) = Some m \<longrightarrow>
            FileTypeString T r = map_index m (FileType r)) \<and>
    (FileType_tab T (DataType r) = None \<and> DataType r = DataTypeBinaryText T \<longrightarrow>
       FileTypeString T r = ''BinaryText'') \<and>
    (FileType_tab T (DataType r) = None \<and> DataType r = DataTypeXBIN T \<longrightarrow>
       FileTypeString T r = ''XBin'') \<and>
    (FileType_tab T (DataType r) = None \<and> DataType r = DataTypeExecutable T \<longrightarrow>
       FileTypeString T r = ''Executable'') \<and>
    (FileType_tab T (DataType r) = None \<and> DataType r \<noteq> DataTypeBinaryText T \<and>
     DataType r \<noteq> DataTypeXBIN T \<and> DataType r \<noteq> DataTypeExecutable T \<longrightarrow>
       FileTypeString T r = [])"
  using assms by (auto simp add: FileTypeString_def split: option.splits)

theorem FileTypeString_lookup_witness:
  "DataTypeBinaryText example_tables \<noteq> DataTypeXBIN example_tables \<and>
   DataTypeExecutable example_tables \<noteq> DataTypeBinaryText example_tables \<and>
   DataTypeExecutable example_tables \<noteq> DataTypeXBIN example_tables \<and>
   FileType_tab example_tables 5 = None \<and>
   FileTypeString example_tables (New\<lparr>DataType := 5\<rparr>) = ''BinaryText'' \<and>
   FileTypeString example_tables (New\<lparr>DataType := 6\<rparr>) = ''XBin'' \<and>
   FileTypeString example_tables (New\<lparr>DataType := 8\<rparr>) = ''Executable'' \<and>
   FileTypeString example_tables (New\<lparr>DataType := 9\<rparr>) = [] \<and>
   FileTypeString example_tables (New\<lparr>DataType := 1, FileType := 1\<rparr>) = ''ANSi'' \<and>
   FileTypeString example_tables (New\<lparr>DataType := 1, FileType := 7\<rparr>) = []"
proof -
  have d: "DataTypeBinaryText example_tables \<noteq> DataTypeXBIN example_tables"
    "DataTypeExecutable example_tables \<noteq> DataTypeBinaryText example_tables"
    "DataTypeExecutable example_tables \<noteq> DataTypeXBIN example_tables"
    by (simp_all add: example_tables_def)
  note w = FileTypeString_lookup [OF d]
  show ?thesis
    using d w [of "New\<lparr>DataType := 5\<rparr>"] w [of "New\<lparr>DataType := 6\<rparr>"]
      w [of "New\<lparr>DataType := 8\<rparr>"] w [of "New\<lparr>DataType := 9\<rparr>"]
      w [of "New\<lparr>DataType := 1, FileType := 1\<rparr>"]
      w [of "New\<lparr>DataType := 1, FileType := 7\<rparr>"]
    by (simp add: example_tables_def map_index_def)
qed

subsection \<open>The fixture\<close>

lemma fixture_title: "TrimSpace (string_of_bytes (bytes_of_string (pad ''Test Title'' 34))) = ''Test Title''"
  by code_simp

lemma fixture_author: "TrimSpace (string_of_bytes (bytes_of_string (pad ''Author'' 20))) = ''Author''"
  by code_simp

lemma fixture_group: "TrimSpace (string_of_bytes (bytes_of_string (pad ''Group'' 20))) = ''Group''"
  by code_simp

lemma fixture_date:
  "fst (Atoi ''2023'') = 2023" "fst (Atoi ''06'') = 6" "fst (Atoi ''15'') = 15"
  "time_Date 2023 6 15 = 1686787200"
  by code_simp+

lemma fixture_size_bytes: "PutUint32 1024 = [0, 4, 0, 0]"
  by code_simp

lemma fixture_tinfo_bytes:
  "PutUint16 80 @ PutUint16 25 @ PutUint16 0 @ PutUint16 0 = [80, 0, 25, 0, 0, 0, 0, 0]"
  by code_simp

lemma nth_of_take_drop:
  assumes "take n (drop k b) = xs" and "i < n" and "k + n \<le> length b"
  shows "b ! (k + i) = xs ! i"
proof -
  have "xs ! i = take n (drop k b) ! i" using assms(1) by simp
  also have "\<dots> = b ! (k + i)" using assms(2,3) by simp
  finally show ?thesis by simp
qed

lemma take_of_take_drop:
  assumes "take n (drop k b) = xs" and "j + m \<le> n"
  shows "take m (drop (k + j) b) = take m (drop j xs)"
  using assms by (auto simp add: drop_take add.commute)

lemma fixture_matches: "matches_fixture fixture"
  by code_simp

lemma fixture_with_prefix_matches: "matches_fixture ([0x41, 0x42, 0x1A] @ fixture)"
  by code_simp

text \<open>
  The byte at the window offset 94 is both the data type and the last byte of the size
  field, in every record that is decoded.
\<close>

lemma FileSize_DataType_overlap:
  assumes "ParseBytes b = Some (Some r, None)"
  shows "DataType r = ucast (drop_bit 24 (FileSize r))"
proof -
  from assms have len: "128 \<le> length b" and sig: "take 5 (drop (length b - 128) b) = ID_var"
    using ParseBytes_result by blast+
  have w: "(ucast (drop_bit 24 (ucast b0 OR push_bit 8 (ucast b1) OR push_bit 16 (ucast b2)
              OR push_bit 24 (ucast b3) :: uint32)) :: byte) = b3" for b0 b1 b2 b3 :: byte
    by (rule bit_word_eqI) (auto simp add: bit_simps dest: bit_imp_le_length)
  define off where "off = length b - 128"
  have "FileSize r = ucast (b ! (off + 91)) OR push_bit 8 (ucast (b ! (off + 92)))
          OR push_bit 16 (ucast (b ! (off + 93))) OR push_bit 24 (ucast (b ! (off + 94)))"
    and "DataType r = b ! (off + 94)"
    using assms unfolding ParseBytes_success [OF len sig] off_def by auto
  then show ?thesis by (simp only: w)
qed

text \<open>
  C1, as the code has it: on every buffer that matches the fixture, \<open>ParseBytes\<close>
  succeeds with title "Test Title", author "Author", group "Group", the date 2023-06-15,
  non-blink mode set and the legacy aspect ratio; the file size is 16778240, that is 1024
  plus the data type code 1 in its last byte, and the letter spacing of the flags byte
  \<open>0b00000101\<close> is 2 (9 pixels).
\<close>

theorem fixture_decoding:
  assumes "matches_fixture b"
  shows "\<exists>r. ParseBytes b = Some (Some r, None) \<and>
       Title r = ''Test Title'' \<and> Author r = ''Author'' \<and> Group r = ''Group'' \<and>
       Date r = time_Date 2023 6 15 \<and> Date r = 1686787200 \<and>
       FileSize r = 16778240 \<and>
       DataType r = 1 \<and> FileType r = 0 \<and> TInfo r = [80, 25, 0, 0] \<and> Comments r = 0 \<and>
       NonBlink (TFlags r) = True \<and> LetterSpacing (TFlags r) = 2 \<and>
       AspectRatio (TFlags r) = 0"
proof -
  define off where "off = length b - 128"
  note mf = assms [unfolded matches_fixture_def Let_def, folded off_def]
  from mf have len: "128 \<le> length b"
    and sig: "take 5 (drop off b) = bytes_of_string ''SAUCE''"
    and title: "take 34 (drop (off + 7) b) = bytes_of_string (pad ''Test Title'' 34)"
    and author: "take 20 (drop (off + 41) b) = bytes_of_string (pad ''Author'' 20)"
    and group: "take 20 (drop (off + 61) b) = bytes_of_string (pad ''Group'' 20)"
    and date: "take 8 (drop (off + 82) b) = bytes_of_string ''20230615''"
    and fsize: "take 3 (drop (off + 91) b) = take 3 (PutUint32 1024)"
    and dt: "b ! (off + 94) = 1" and ft: "b ! (off + 95) = 0"
    and tinfo: "take 8 (drop (off + 96) b) =
           PutUint16 80 @ PutUint16 25 @ PutUint16 0 @ PutUint16 0"
    and comments: "b ! (off + 104) = 0" and flags: "b ! (off + 105) = 5"
    by blast+
  have lb: "length b = off + 128" using len by (simp add: off_def)
  have sig': "take 5 (drop (length b - 128) b) = ID_var"
    using sig by (simp add: off_def bytes_of_string_def ID_var_def)
  have y: "string_of_bytes (take 4 (drop (off + 82) b)) = ''2023''"
    using take_of_take_drop [OF date, of 0 4] date
    by (simp add: bytes_of_string_def string_of_bytes_def byte_char_def char_of_eq_iff)
  have m: "string_of_bytes (take 2 (drop (off + 86) b)) = ''06''"
    using take_of_take_drop [OF date, of 4 2] date
    by (simp add: bytes_of_string_def string_of_bytes_def byte_char_def char_of_eq_iff
        add.assoc)
  have d: "string_of_bytes (take 2 (drop (off + 88) b)) = ''15''"
    using take_of_take_drop [OF date, of 6 2] date
    by (simp add: bytes_of_string_def string_of_bytes_def byte_char_def char_of_eq_iff
        add.assoc)
  have s: "b ! (off + 91) = 0" "b ! (off + 92) = 4" "b ! (off + 93) = 0"
    using nth_of_take_drop [OF fsize, of 0] nth_of_take_drop [OF fsize, of 1]
      nth_of_take_drop [OF fsize, of 2]
    by (simp_all add: lb fixture_size_bytes add.commute)
  have t: "b ! (off + 96) = 80" "b ! (off + 97) = 0" "b ! (off + 98) = 25"
    "b ! (off + 99) = 0" "b ! (off + 100) = 0" "b ! (off + 101) = 0"
    "b ! (off + 102) = 0" "b ! (off + 103) = 0"
    using nth_of_take_drop [OF tinfo, of 0] nth_of_take_drop [OF tinfo, of 1]
      nth_of_take_drop [OF tinfo, of 2] nth_of_take_drop [OF tinfo, of 3]
      nth_of_take_drop [OF tinfo, of 4] nth_of_take_drop [OF tinfo, of 5]
      nth_of_take_drop [OF tinfo, of 6] nth_of_take_drop [OF tinfo, of 7]
    by (simp_all add: lb fixture_tinfo_bytes add.commute)
  show ?thesis
    unfolding ParseBytes_success [OF len sig'] off_def [symmetric]
    by (simp add: title author group y m d s t dt ft comments flags
        fixture_title fixture_author fixture_group fixture_date)
qed

theorem fixture_decoding_witness:
  "matches_fixture ([0x41, 0x42, 0x1A] @ fixture) \<and>
   (\<exists>r. ParseBytes ([0x41, 0x42, 0x1A] @ fixture) = Some (Some r, None) \<and>
       Title r = ''Test Title'' \<and> FileSize r = 16778240 \<and> DataType r = 1 \<and>
       LetterSpacing (TFlags r) = 2)"
  using fixture_decoding [OF fixture_with_prefix_matches] fixture_with_prefix_matches by blast

text \<open>
  C1, as stated, fails on the fixture itself, which matches it: the claim has letter
  spacing 1 and file size 1024.
\<close>

theorem fixture_claimed_values_counterexample:
  "matches_fixture fixture \<and>
   ParseBytes fixture = Some (Some fixture_record, None) \<and>
   LetterSpacing (TFlags fixture_record) \<noteq> 1 \<and>
   FileSize fixture_record \<noteq> 1024"
proof -
  have "LetterSpacing (TFlags fixture_record) \<noteq> 1" "FileSize fixture_record \<noteq> 1024"
    by (simp_all add: fixture_record_def)
  then show ?thesis using ParseBytes_fixture fixture_matches by blast
qed

subsection \<open>\<open>Parse\<close> on a section reader\<close>

text \<open>
  On a section that is the whole of an in-memory reader, \<open>Parse\<close> compares the offset after
  the seek, which is the length minus 128, with 128: a section shorter than 128 bytes gets
  the error of \<open>Seek\<close>, one of 128 to 255 bytes the short-read error, and only a section
  of 256 bytes or more is read and decoded.
\<close>

lemma int64_id: "- (2 ^ 63) \<le> x \<Longrightarrow> x < 2 ^ 63 \<Longrightarrow> int64 x = x"
  by (simp add: int64_def)

lemma Parse_whole_reader:
  assumes "int (length rd) \<le> 2 ^ 63 - 1"
  shows "fst (Parse (NewSectionReader rd 0 (int (length rd)))) =
     (if length rd < 128 then Some (None, Some errOffset)
      else if length rd < 256 then Some (None, Some errShortRead)
      else ParseBytes (drop (length rd - 128) rd))"
proof -
  let ?L = "int (length rd)"
  let ?s = "NewSectionReader rd 0 ?L"
  have w: "int64 (2 ^ 63 - 1 - ?L) = 2 ^ 63 - 1 - ?L" "int64 ?L = ?L"
    "int64 (- 128 + ?L) = - 128 + ?L"
    using assms by (simp_all add: int64_id)
  have s: "?s = \<lparr>sr_r = rd, sr_base = 0, sr_off = 0, sr_limit = ?L\<rparr>"
    using assms by (simp add: NewSectionReader_def int64_id)
  have sk: "Seek ?s (- 128) 2 =
      (if ?L < 128 then ((0, Some errOffset), ?s)
       else ((?L - 128, None), ?s\<lparr>sr_off := ?L - 128\<rparr>))"
    using assms by (simp add: s Seek_def Let_def w int64_id)
  consider (a) "length rd < 128" | (b) "128 \<le> length rd" "length rd < 256"
    | (c) "256 \<le> length rd"
    by linarith
  then show ?thesis
  proof cases
    case a
    then show ?thesis by (simp add: Parse_def sk)
  next
    case b
    then show ?thesis by (simp add: Parse_def sk)
  next
    case c
    have n: "nat (?L - 128) = length rd - 128" using c by simp
    have l: "length (drop (length rd - 128) rd) = 128" using c by simp
    have t: "take 128 (drop (length rd - 128) rd) = drop (length rd - 128) rd"
      using l by simp
    have rd: "Read (?s\<lparr>sr_off := ?L - 128\<rparr>) (replicate 128 0) =
        Some ((128, None, drop (length rd - 128) rd), ?s\<lparr>sr_off := ?L\<rparr>)"
      using c assms by (simp add: s Read_def ReadAt_def Let_def n t int64_id)
    show ?thesis
      using c by (simp add: Parse_def sk rd)
  qed
qed

text \<open>
  C8 says that \<open>Parse\<close> decodes the last 128 bytes of every section of at least 128 bytes,
  and returns the short-read error below that. On a section that is exactly the fixture,
  128 bytes long, \<open>Parse\<close> returns the short-read error and reads nothing, while
  \<open>ParseBytes\<close> and \<open>ParseReader\<close> decode the same bytes; on a section of 100 bytes the
  error is that of \<open>Seek\<close>, not the short-read error.
\<close>

theorem Parse_short_read_on_128_bytes:
  "Size (NewSectionReader fixture 0 128) = 128 \<and>
   fst (Parse (NewSectionReader fixture 0 128)) = Some (None, Some errShortRead) \<and>
   sr_off (snd (Parse (NewSectionReader fixture 0 128))) = 0 \<and>
   ParseBytes fixture = Some (Some fixture_record, None) \<and>
   ParseReader fixture = Some (Some fixture_record, None) \<and>
   fst (Parse (NewSectionReader (replicate 100 0) 0 100)) = Some (None, Some errOffset) \<and>
   errOffset \<noteq> errShortRead"
proof -
  have n: "NewSectionReader rd 0 128 = \<lparr>sr_r = rd, sr_base = 0, sr_off = 0, sr_limit = 128\<rparr>"
    "NewSectionReader rd 0 100 = \<lparr>sr_r = rd, sr_base = 0, sr_off = 0, sr_limit = 100\<rparr>"
    for rd
    by (simp_all add: NewSectionReader_def int64_id)
  have "Parse (NewSectionReader rd 0 128) =
          (Some (None, Some errShortRead), NewSectionReader rd 0 128)" for rd
    by (simp add: n Parse_def Seek_def Let_def int64_id)
  moreover have "fst (Parse (NewSectionReader rd 0 100)) = Some (None, Some errOffset)" for rd
    by (simp add: n Parse_def Seek_def Let_def int64_id)
  moreover have "ParseReader fixture = Some (Some fixture_record, None)"
    by (simp add: ParseReader_def fixture_length ParseBytes_fixture)
  moreover have "Size (NewSectionReader fixture 0 128) = 128"
    by (simp add: n Size_def int64_id)
  ultimately show ?thesis
    by (simp add: ParseBytes_fixture n errOffset_def errShortRead_def)
qed

end
